theory Spec2Isabelle
  imports Complex_Main "HOL-Library.Product_Lexorder" "HOL-Library.List_Lexorder"
    "HOL-Library.Char_ord"
begin

section \<open>Values, documents and exceptions\<close>

text \<open>
  The program (\<^verbatim>\<open>app.py\<close>) is a Flask application over three MongoDB collections. Its
  handlers work on Python values read from JSON bodies and BSON documents: \<^verbatim>\<open>None\<close>,
  booleans, integers, floats, strings, lists, dictionaries with string keys, datetimes and
  ObjectIds. A dictionary is an association list in insertion order.

  Python's unbounded \<^verbatim>\<open>int\<close> is \<open>int\<close>. A \<^verbatim>\<open>float\<close> is modelled by the rational number
  it denotes: rounding, infinities and NaN of IEEE arithmetic are outside the model. A
  datetime is the number of milliseconds since the epoch (the precision BSON stores), an
  ObjectId is the number its 24 hexadecimal digits denote.
\<close>

datatype pyval =
    PNone
  | PBool bool
  | PInt int
  | PFloat rat
  | PStr string
  | PList "pyval list"
  | PDict "(string \<times> pyval) list"
  | PDate int
  | PObjectId nat

type_synonym document = "(string \<times> pyval) list"

text \<open>The exception classes the handlers can meet. Each handler catches all of them
  at its boundary (\<^verbatim>\<open>except Exception\<close>).\<close>

datatype py_exc =
    ValueError
  | SyntaxError
  | TypeError
  | KeyError
  | IndexError
  | AttributeError
  | ZeroDivisionError
  | MemoryError
  | RecursionError
  | InvalidId

text \<open>A computation that may raise returns \<open>py_exc + 'a\<close>; \<open>and_then\<close> sequences two of
  them, the first exception ending the computation.\<close>

definition and_then :: "py_exc + 'a \<Rightarrow> ('a \<Rightarrow> py_exc + 'b) \<Rightarrow> py_exc + 'b" where
  "and_then m f = (case m of Inl e \<Rightarrow> Inl e | Inr x \<Rightarrow> f x)"

section \<open>Python operations used by the handlers\<close>

text \<open>\<^verbatim>\<open>bool(x)\<close> and the truth test of \<^verbatim>\<open>if x\<close>, \<^verbatim>\<open>not x\<close>.\<close>

fun py_truthy :: "pyval \<Rightarrow> bool" where
  "py_truthy PNone = False"
| "py_truthy (PBool b) = b"
| "py_truthy (PInt i) = (i \<noteq> 0)"
| "py_truthy (PFloat r) = (r \<noteq> 0)"
| "py_truthy (PStr s) = (s \<noteq> [])"
| "py_truthy (PList xs) = (xs \<noteq> [])"
| "py_truthy (PDict d) = (d \<noteq> [])"
| "py_truthy (PDate t) = True"
| "py_truthy (PObjectId n) = True"

text \<open>\<^verbatim>\<open>d[k] = v\<close> on a dictionary: an existing key keeps its place, a new key goes last.\<close>

fun dict_set :: "document \<Rightarrow> string \<Rightarrow> pyval \<Rightarrow> document" where
  "dict_set [] k v = [(k, v)]"
| "dict_set ((k', v') # d) k v = (if k' = k then (k, v) # d else (k', v') # dict_set d k v)"

text \<open>\<^verbatim>\<open>obj[k]\<close> with a string key: \<^verbatim>\<open>KeyError\<close> on a dictionary without the key,
  \<^verbatim>\<open>TypeError\<close> on every other value (a list or string wants an integer index, the
  rest are not subscriptable).\<close>

fun py_getitem :: "pyval \<Rightarrow> string \<Rightarrow> py_exc + pyval" where
  "py_getitem (PDict d) k = (case map_of d k of None \<Rightarrow> Inl KeyError | Some v \<Rightarrow> Inr v)"
| "py_getitem _ k = Inl TypeError"

text \<open>\<^verbatim>\<open>obj.get(k, default)\<close>: only a dictionary has the method.\<close>

fun py_get :: "pyval \<Rightarrow> string \<Rightarrow> pyval \<Rightarrow> py_exc + pyval" where
  "py_get (PDict d) k dflt = Inr (case map_of d k of None \<Rightarrow> dflt | Some v \<Rightarrow> v)"
| "py_get _ k dflt = Inl AttributeError"

text \<open>\<^verbatim>\<open>k in obj\<close> for a string \<open>k\<close>: a key of a dictionary, an element of a list, a
  substring of a string; every other value is not iterable.\<close>

fun is_substring :: "string \<Rightarrow> string \<Rightarrow> bool" where
  "is_substring k [] = (k = [])"
| "is_substring k (c # s) = (take (length k) (c # s) = k \<or> is_substring k s)"

fun py_contains :: "string \<Rightarrow> pyval \<Rightarrow> py_exc + bool" where
  "py_contains k (PDict d) = Inr (map_of d k \<noteq> None)"
| "py_contains k (PList xs) = Inr (PStr k \<in> set xs)"
| "py_contains k (PStr s) = Inr (is_substring k s)"
| "py_contains k _ = Inl TypeError"

text \<open>Numbers. A \<^verbatim>\<open>bool\<close> is an \<^verbatim>\<open>int\<close> in Python (\<^verbatim>\<open>True == 1\<close>). An operation on two
  integers gives an integer, one with a float gives a float.\<close>

fun as_int :: "pyval \<Rightarrow> int option" where
  "as_int (PInt i) = Some i"
| "as_int (PBool b) = Some (if b then 1 else 0)"
| "as_int _ = None"

fun as_num :: "pyval \<Rightarrow> rat option" where
  "as_num (PInt i) = Some (of_int i)"
| "as_num (PBool b) = Some (if b then 1 else 0)"
| "as_num (PFloat r) = Some r"
| "as_num _ = None"

definition py_arith ::
  "(int \<Rightarrow> int \<Rightarrow> int) \<Rightarrow> (rat \<Rightarrow> rat \<Rightarrow> rat) \<Rightarrow> pyval \<Rightarrow> pyval \<Rightarrow> pyval option" where
  "py_arith iop rop a b =
     (case (as_int a, as_int b) of
        (Some i, Some j) \<Rightarrow> Some (PInt (iop i j))
      | _ \<Rightarrow> (case (as_num a, as_num b) of
                (Some x, Some y) \<Rightarrow> Some (PFloat (rop x y))
              | _ \<Rightarrow> None))"

text \<open>\<^verbatim>\<open>a * b\<close>: numbers multiply, a string or list is repeated by an integer (not at
  all by one below 1), everything else is a \<^verbatim>\<open>TypeError\<close>.\<close>

definition py_mul :: "pyval \<Rightarrow> pyval \<Rightarrow> py_exc + pyval" where
  "py_mul a b =
     (case py_arith (*) (*) a b of
        Some c \<Rightarrow> Inr c
      | None \<Rightarrow>
          (case (a, as_int b) of
             (PStr s, Some n) \<Rightarrow> Inr (PStr (concat (replicate (nat n) s)))
           | (PList xs, Some n) \<Rightarrow> Inr (PList (concat (replicate (nat n) xs)))
           | _ \<Rightarrow>
              (case (as_int a, b) of
                 (Some n, PStr s) \<Rightarrow> Inr (PStr (concat (replicate (nat n) s)))
               | (Some n, PList xs) \<Rightarrow> Inr (PList (concat (replicate (nat n) xs)))
               | _ \<Rightarrow> Inl TypeError)))"

text \<open>\<^verbatim>\<open>a + b\<close> (and \<^verbatim>\<open>a += b\<close> on a number): numbers add, two strings or two lists
  are joined.\<close>

definition py_add :: "pyval \<Rightarrow> pyval \<Rightarrow> py_exc + pyval" where
  "py_add a b =
     (case py_arith (+) (+) a b of
        Some c \<Rightarrow> Inr c
      | None \<Rightarrow>
          (case (a, b) of
             (PStr s, PStr t) \<Rightarrow> Inr (PStr (s @ t))
           | (PList xs, PList ys) \<Rightarrow> Inr (PList (xs @ ys))
           | _ \<Rightarrow> Inl TypeError))"

text \<open>\<^verbatim>\<open>a / b\<close>: true division, always a float; a zero divisor raises.\<close>

definition py_truediv :: "pyval \<Rightarrow> pyval \<Rightarrow> py_exc + pyval" where
  "py_truediv a b =
     (case (as_num a, as_num b) of
        (Some x, Some y) \<Rightarrow> if y = 0 then Inl ZeroDivisionError else Inr (PFloat (x / y))
      | _ \<Rightarrow> Inl TypeError)"

text \<open>\<^verbatim>\<open>a > 0\<close>: only a number compares with the integer 0.\<close>

definition py_gt0 :: "pyval \<Rightarrow> py_exc + bool" where
  "py_gt0 a = (case as_num a of Some x \<Rightarrow> Inr (0 < x) | None \<Rightarrow> Inl TypeError)"

section \<open>The capacity parser\<close>

text \<open>
  \<^verbatim>\<open>
  def parse_capacity(capacity):
      if isinstance(capacity, str):
          try:
              return ast.literal_eval(capacity)
          except (ValueError, SyntaxError):
              return {'length': 0, 'width': 0, 'height': 0}
      return capacity
  \<close>
  \<^verbatim>\<open>ast.literal_eval\<close> belongs to Python's library, not to the program: the parser takes
  it as the parameter \<open>le\<close>, a function from the text to the value it denotes or the
  exception it raises. The \<^verbatim>\<open>except\<close> clause absorbs two exception classes; any other
  leaves \<^verbatim>\<open>parse_capacity\<close>.
\<close>

definition zero_capacity :: pyval where
  "zero_capacity = PDict [(''length'', PInt 0), (''width'', PInt 0), (''height'', PInt 0)]"

fun parse_capacity :: "(string \<Rightarrow> py_exc + pyval) \<Rightarrow> pyval \<Rightarrow> py_exc + pyval" where
  "parse_capacity le (PStr s) =
     (case le s of
        Inr v \<Rightarrow> Inr v
      | Inl ValueError \<Rightarrow> Inr zero_capacity
      | Inl SyntaxError \<Rightarrow> Inr zero_capacity
      | Inl e \<Rightarrow> Inl e)"
| "parse_capacity le capacity = Inr capacity"

section \<open>A model of \<^verbatim>\<open>ast.literal_eval\<close> on a fragment of Python's literals\<close>

text \<open>
  The theorems about the program hold for every evaluator \<open>le\<close>. To run the program on
  concrete texts, this section models \<^verbatim>\<open>ast.literal_eval\<close> on a fragment of the literal
  syntax, following the library's two stages: parse the text to an expression tree
  (\<^verbatim>\<open>SyntaxError\<close> when it does not parse), then convert the tree to a value
  (\<^verbatim>\<open>_convert\<close> in \<^verbatim>\<open>ast.py\<close>: \<^verbatim>\<open>ValueError\<close> on a node that is not a literal,
  \<^verbatim>\<open>TypeError\<close> from \<^verbatim>\<open>dict(...)\<close> on an unhashable key).

  The fragment: texts of at most 200 characters made of decimal integers without leading
  zeros, strings in single or double quotes without escapes, the names \<^verbatim>\<open>None\<close>,
  \<^verbatim>\<open>True\<close>, \<^verbatim>\<open>False\<close> and identifiers that are not keywords, unary \<^verbatim>\<open>+\<close> and \<^verbatim>\<open>-\<close>,
  list displays, dictionary displays and spaces. A text ending where the grammar wants
  more is a \<^verbatim>\<open>SyntaxError\<close>. On everything else (floats, tuples, sets, binary operators,
  dictionaries with keys that are not strings, ...) the model gives no answer: the
  outcome is \<open>unmodelled\<close>, and nothing is claimed about Python there.
\<close>

text \<open>The scanner: an automaton over the characters, in the state \<open>Idle\<close> between
  tokens and inside a number, a name or a string otherwise. \<open>None\<close> is a text outside
  the fragment (a character the fragment does not have, a number with a leading zero, a
  keyword, a string prefix, an escape, a string left open).\<close>

datatype token =
    LBRACK | RBRACK | LBRACE | RBRACE | COMMA | COLON | PLUS | MINUS
  | NUMBER int | STRING string | NAME string

datatype scan = Idle | InNumber string | InName string | InString char string

definition is_digit :: "char \<Rightarrow> bool" where
  "is_digit c = (c \<in> set ''0123456789'')"

definition is_ident_start :: "char \<Rightarrow> bool" where
  "is_ident_start c =
     (c \<in> set ''abcdefghijklmnopqrstuvwxyzABCDEFGHIJKLMNOPQRSTUVWXYZ_'')"

definition is_quote :: "char \<Rightarrow> bool" where
  "is_quote c = (c = CHR 0x27 \<or> c = CHR 0x22)"

definition string_char :: "char \<Rightarrow> bool" where
  "string_char c = (32 \<le> (of_char c :: nat) \<and> (of_char c :: nat) < 127 \<and> c \<noteq> CHR 0x5C)"

definition py_keywords :: "string list" where
  "py_keywords = [''and'', ''as'', ''assert'', ''async'', ''await'', ''break'', ''class'',
     ''continue'', ''def'', ''del'', ''elif'', ''else'', ''except'', ''finally'', ''for'',
     ''from'', ''global'', ''if'', ''import'', ''in'', ''is'', ''lambda'', ''nonlocal'',
     ''not'', ''or'', ''pass'', ''raise'', ''return'', ''try'', ''while'', ''with'', ''yield'']"

definition digits_value :: "string \<Rightarrow> int" where
  "digits_value ds = foldl (\<lambda>n c. 10 * n + (int (of_char c) - 48)) 0 ds"

fun punct :: "char \<Rightarrow> token option" where
  "punct c =
     (if c = CHR ''['' then Some LBRACK else if c = CHR '']'' then Some RBRACK
      else if c = CHR ''{'' then Some LBRACE else if c = CHR ''}'' then Some RBRACE
      else if c = CHR '','' then Some COMMA else if c = CHR '':'' then Some COLON
      else if c = CHR ''+'' then Some PLUS else if c = CHR ''-'' then Some MINUS
      else None)"

fun flush :: "scan \<Rightarrow> token list option" where
  "flush Idle = Some []"
| "flush (InNumber ds) =
     (if 1 < length ds \<and> hd ds = CHR ''0'' then None else Some [NUMBER (digits_value ds)])"
| "flush (InName n) = (if n \<in> set py_keywords then None else Some [NAME n])"
| "flush (InString q s) = None"

definition idle_step :: "char \<Rightarrow> (token list \<times> scan) option" where
  "idle_step c =
     (if c = CHR '' '' then Some ([], Idle)
      else if is_digit c then Some ([], InNumber [c])
      else if is_ident_start c then Some ([], InName [c])
      else if is_quote c then Some ([], InString c [])
      else map_option (\<lambda>t. ([t], Idle)) (punct c))"

fun lex_step :: "scan \<Rightarrow> char \<Rightarrow> (token list \<times> scan) option" where
  "lex_step Idle c = idle_step c"
| "lex_step (InNumber ds) c =
     (if is_digit c then Some ([], InNumber (ds @ [c]))
      else if is_ident_start c \<or> is_quote c then None
      else (case (flush (InNumber ds), idle_step c) of
              (Some ts, Some (ts', st)) \<Rightarrow> Some (ts @ ts', st)
            | _ \<Rightarrow> None))"
| "lex_step (InName n) c =
     (if is_ident_start c \<or> is_digit c then Some ([], InName (n @ [c]))
      else if is_quote c then None
      else (case (flush (InName n), idle_step c) of
              (Some ts, Some (ts', st)) \<Rightarrow> Some (ts @ ts', st)
            | _ \<Rightarrow> None))"
| "lex_step (InString q s) c =
     (if c = q then Some ([STRING s], Idle)
      else if string_char c then Some ([], InString q (s @ [c]))
      else None)"

fun lex :: "scan \<Rightarrow> string \<Rightarrow> token list option" where
  "lex st [] = flush st"
| "lex st (c # cs) =
     (case lex_step st c of
        None \<Rightarrow> None
      | Some (ts, st') \<Rightarrow> map_option ((@) ts) (lex st' cs))"

text \<open>The expression trees of the fragment, named as in Python's \<^verbatim>\<open>ast\<close> module, and
  the three outcomes of a stage: a value, an exception, or no answer.\<close>

datatype unaryop = UAdd | USub

datatype expr =
    Constant pyval
  | Name string
  | ListNode "expr list"
  | DictNode "expr list" "expr list"
  | UnaryOp unaryop expr

type_synonym 'a outcome = "(py_exc + 'a) option"

definition returns :: "'a \<Rightarrow> 'a outcome" where
  "returns x = Some (Inr x)"

definition raises :: "py_exc \<Rightarrow> 'a outcome" where
  "raises e = Some (Inl e)"

definition unmodelled :: "'a outcome" where
  "unmodelled = None"

definition next_do :: "'a outcome \<Rightarrow> ('a \<Rightarrow> 'b outcome) \<Rightarrow> 'b outcome" where
  "next_do m f = (case m of None \<Rightarrow> None | Some (Inl e) \<Rightarrow> Some (Inl e) | Some (Inr x) \<Rightarrow> f x)"

text \<open>
  The parser, by recursive descent, with fuel that no text of the fragment exhausts
  (twice the number of tokens, and 2):
  \<^verbatim>\<open>
  expr  ::=  NUMBER | STRING | NAME | '+' expr | '-' expr
          |  '[' [expr (',' expr)* [',']] ']'
          |  '{' [expr ':' expr (',' expr ':' expr)* [',']] '}'
  \<close>
  The input ending inside an expression is a \<^verbatim>\<open>SyntaxError\<close>; a token the grammar does
  not expect (where Python may go on to parse a tuple, a set, an operator, a subscript)
  is outside the fragment, as are two strings in a row.
\<close>

definition name_node :: "string \<Rightarrow> expr" where
  "name_node x =
     (if x = ''None'' then Constant PNone
      else if x = ''True'' then Constant (PBool True)
      else if x = ''False'' then Constant (PBool False)
      else Name x)"

fun parse_expr :: "nat \<Rightarrow> token list \<Rightarrow> (expr \<times> token list) outcome"
and parse_items :: "nat \<Rightarrow> token list \<Rightarrow> (expr list \<times> token list) outcome"
and parse_pairs :: "nat \<Rightarrow> token list \<Rightarrow> ((expr list \<times> expr list) \<times> token list) outcome"
where
  "parse_expr 0 ts = unmodelled"
| "parse_expr (Suc n) [] = raises SyntaxError"
| "parse_expr (Suc n) (NUMBER i # ts) = returns (Constant (PInt i), ts)"
| "parse_expr (Suc n) (STRING s # ts) =
     (case ts of STRING s' # ts' \<Rightarrow> unmodelled | _ \<Rightarrow> returns (Constant (PStr s), ts))"
| "parse_expr (Suc n) (NAME x # ts) = returns (name_node x, ts)"
| "parse_expr (Suc n) (PLUS # ts) =
     next_do (parse_expr n ts) (\<lambda>(e, rest). returns (UnaryOp UAdd e, rest))"
| "parse_expr (Suc n) (MINUS # ts) =
     next_do (parse_expr n ts) (\<lambda>(e, rest). returns (UnaryOp USub e, rest))"
| "parse_expr (Suc n) (LBRACK # ts) =
     next_do (parse_items n ts) (\<lambda>(es, rest). returns (ListNode es, rest))"
| "parse_expr (Suc n) (LBRACE # ts) =
     next_do (parse_pairs n ts) (\<lambda>((ks, vs), rest). returns (DictNode ks vs, rest))"
| "parse_expr (Suc n) (t # ts) = unmodelled"
| "parse_items 0 ts = unmodelled"
| "parse_items (Suc n) [] = raises SyntaxError"
| "parse_items (Suc n) (RBRACK # ts) = returns ([], ts)"
| "parse_items (Suc n) (t # ts) =
     next_do (parse_expr n (t # ts)) (\<lambda>(e, rest).
       case rest of
         [] \<Rightarrow> raises SyntaxError
       | RBRACK # rest' \<Rightarrow> returns ([e], rest')
       | COMMA # rest' \<Rightarrow> next_do (parse_items n rest') (\<lambda>(es, rest''). returns (e # es, rest''))
       | _ \<Rightarrow> unmodelled)"
| "parse_pairs 0 ts = unmodelled"
| "parse_pairs (Suc n) [] = raises SyntaxError"
| "parse_pairs (Suc n) (RBRACE # ts) = returns (([], []), ts)"
| "parse_pairs (Suc n) (t # ts) =
     next_do (parse_expr n (t # ts)) (\<lambda>(k, rest).
       case rest of
         [] \<Rightarrow> raises SyntaxError
       | COLON # rest' \<Rightarrow>
           next_do (parse_expr n rest') (\<lambda>(v, rest'').
             case rest'' of
               [] \<Rightarrow> raises SyntaxError
             | RBRACE # rest3 \<Rightarrow> returns (([k], [v]), rest3)
             | COMMA # rest3 \<Rightarrow>
                 next_do (parse_pairs n rest3) (\<lambda>((ks, vs), rest4). returns ((k # ks, v # vs), rest4))
             | _ \<Rightarrow> unmodelled)
       | _ \<Rightarrow> unmodelled)"

text \<open>
  The conversion, from \<^verbatim>\<open>ast.py\<close>:
  \<^verbatim>\<open>
  def _convert_num(node):
      if not isinstance(node, Constant) or type(node.value) not in (int, float, complex):
          _raise_malformed_node(node)                    # ValueError
      return node.value
  def _convert_signed_num(node):
      if isinstance(node, UnaryOp) and isinstance(node.op, (UAdd, USub)):
          operand = _convert_num(node.operand)
          if isinstance(node.op, UAdd): return + operand
          else: return - operand
      return _convert_num(node)
  def _convert(node):
      if isinstance(node, Constant): return node.value
      elif isinstance(node, List): return list(map(_convert, node.elts))
      elif isinstance(node, Dict):
          if len(node.keys) != len(node.values): _raise_malformed_node(node)
          return dict(zip(map(_convert, node.keys), map(_convert, node.values)))
      ...
      return _convert_signed_num(node)
  \<close>
  \<^verbatim>\<open>dict(zip(...))\<close> converts a key, then its value, then hashes the key, pair by pair: a
  list or dictionary as key raises \<^verbatim>\<open>TypeError\<close> there. A key that is hashable and not
  a string gives a dictionary outside the modelled values.
\<close>

fun convert_num :: "expr \<Rightarrow> pyval outcome" where
  "convert_num (Constant (PInt i)) = returns (PInt i)"
| "convert_num (Constant (PFloat r)) = returns (PFloat r)"
| "convert_num node = raises ValueError"

fun convert_signed_num :: "expr \<Rightarrow> pyval outcome" where
  "convert_signed_num (UnaryOp op operand) =
     next_do (convert_num operand) (\<lambda>v.
       case (op, v) of
         (USub, PInt i) \<Rightarrow> returns (PInt (- i))
       | (USub, PFloat r) \<Rightarrow> returns (PFloat (- r))
       | _ \<Rightarrow> returns v)"
| "convert_signed_num node = convert_num node"

fun unhashable :: "pyval \<Rightarrow> bool" where
  "unhashable (PList xs) = True"
| "unhashable (PDict d) = True"
| "unhashable v = False"

function convert :: "expr \<Rightarrow> pyval outcome"
and convert_list :: "expr list \<Rightarrow> pyval list outcome"
and convert_pairs :: "expr list \<Rightarrow> expr list \<Rightarrow> document \<Rightarrow> document outcome"
where
  "convert (Constant v) = returns v"
| "convert (ListNode es) = next_do (convert_list es) (\<lambda>vs. returns (PList vs))"
| "convert (DictNode ks vs) =
     (if length ks \<noteq> length vs then raises ValueError
      else next_do (convert_pairs ks vs []) (\<lambda>d. returns (PDict d)))"
| "convert (Name x) = convert_signed_num (Name x)"
| "convert (UnaryOp op operand) = convert_signed_num (UnaryOp op operand)"
| "convert_list [] = returns []"
| "convert_list (e # es) =
     next_do (convert e) (\<lambda>v. next_do (convert_list es) (\<lambda>vs. returns (v # vs)))"
| "convert_pairs (k # ks) (v # vs) d =
     next_do (convert k) (\<lambda>key.
     next_do (convert v) (\<lambda>val.
       if unhashable key then raises TypeError
       else (case key of
               PStr s \<Rightarrow> convert_pairs ks vs (dict_set d s val)
             | _ \<Rightarrow> unmodelled)))"
| "convert_pairs [] vs d = returns d"
| "convert_pairs (k # ks) [] d = returns d"
  by pat_completeness auto
termination
  by (relation "measure (\<lambda>x. case x of
          Inl e \<Rightarrow> size e
        | Inr (Inl es) \<Rightarrow> size_list size es
        | Inr (Inr (ks, vs, d)) \<Rightarrow> size_list size ks + size_list size vs)") auto

definition literal_eval_frag :: "string \<Rightarrow> pyval outcome" where
  "literal_eval_frag s =
     (if 200 < length s then unmodelled
      else case lex Idle s of
        None \<Rightarrow> unmodelled
      | Some ts \<Rightarrow>
          next_do (parse_expr (2 * length ts + 2) ts) (\<lambda>(e, rest).
            if rest = [] then convert e else unmodelled))"

text \<open>The evaluator handed to the program when it is run on a text of the fragment.\<close>

definition literal_eval :: "string \<Rightarrow> py_exc + pyval" where
  "literal_eval s = the (literal_eval_frag s)"

section \<open>The utilization aggregator\<close>

text \<open>
  The loop of \<^verbatim>\<open>dashboard\<close> over all bins, and of \<^verbatim>\<open>get_warehouse_stats\<close> over the bins
  of one zone (the two loops are the same text):
  \<^verbatim>\<open>
  total_capacity = 0
  used_capacity = 0
  for b in bins:
      capacity = parse_capacity(b['capacity'])
      vol = capacity['length'] * capacity['width'] * capacity['height']
      total_capacity += vol
      used_capacity += vol * b.get('current_utilization', 0)
  utilization = (used_capacity/total_capacity)*100 if total_capacity > 0 else 0
  \<close>
  \<open>bin_step\<close> is one pass of the loop body on the pair of running totals,
  \<open>accumulate\<close> the loop, \<open>utilization_percent\<close> the last line. The one-decimal
  rendering \<^verbatim>\<open>f"{utilization:.1f}"\<close> of the result is display formatting of a float and is
  not modelled.
\<close>

definition bin_step ::
  "(string \<Rightarrow> py_exc + pyval) \<Rightarrow> pyval \<times> pyval \<Rightarrow> document \<Rightarrow> py_exc + pyval \<times> pyval" where
  "bin_step le acc b =
     and_then (py_getitem (PDict b) ''capacity'') (\<lambda>raw.
     and_then (parse_capacity le raw) (\<lambda>capacity.
     and_then (py_getitem capacity ''length'') (\<lambda>l.
     and_then (py_getitem capacity ''width'') (\<lambda>w.
     and_then (py_mul l w) (\<lambda>lw.
     and_then (py_getitem capacity ''height'') (\<lambda>h.
     and_then (py_mul lw h) (\<lambda>vol.
     and_then (py_add (fst acc) vol) (\<lambda>total_capacity.
     and_then (py_get (PDict b) ''current_utilization'' (PInt 0)) (\<lambda>u.
     and_then (py_mul vol u) (\<lambda>vu.
     and_then (py_add (snd acc) vu) (\<lambda>used_capacity.
     Inr (total_capacity, used_capacity))))))))))))"

fun accumulate_from ::
  "(string \<Rightarrow> py_exc + pyval) \<Rightarrow> pyval \<times> pyval \<Rightarrow> document list \<Rightarrow> py_exc + pyval \<times> pyval" where
  "accumulate_from le acc [] = Inr acc"
| "accumulate_from le acc (b # bins) =
     (case bin_step le acc b of
        Inl e \<Rightarrow> Inl e
      | Inr acc' \<Rightarrow> accumulate_from le acc' bins)"

definition accumulate ::
  "(string \<Rightarrow> py_exc + pyval) \<Rightarrow> document list \<Rightarrow> py_exc + pyval \<times> pyval" where
  "accumulate le bins = accumulate_from le (PInt 0, PInt 0) bins"

definition utilization_percent :: "pyval \<Rightarrow> pyval \<Rightarrow> py_exc + pyval" where
  "utilization_percent total_capacity used_capacity =
     and_then (py_gt0 total_capacity) (\<lambda>positive.
       if positive
       then and_then (py_truediv used_capacity total_capacity) (\<lambda>q. py_mul q (PInt 100))
       else Inr (PInt 0))"

definition utilization :: "(string \<Rightarrow> py_exc + pyval) \<Rightarrow> document list \<Rightarrow> py_exc + pyval" where
  "utilization le bins =
     and_then (accumulate le bins) (\<lambda>acc. utilization_percent (fst acc) (snd acc))"

section \<open>The document store\<close>

text \<open>
  The three collections of \<^verbatim>\<open>warehouse_db\<close>, each a list of documents in natural
  (insertion) order. The store is reached through \<^verbatim>\<open>find\<close>, \<^verbatim>\<open>find_one\<close>, \<^verbatim>\<open>distinct\<close>,
  \<^verbatim>\<open>count_documents\<close>, \<^verbatim>\<open>aggregate\<close>, \<^verbatim>\<open>insert_one\<close> and \<^verbatim>\<open>delete_one\<close>; failures of
  the connection are outside the model.
\<close>

record store =
  inventory :: "document list"
  warehouse_layout :: "document list"
  movement_logs :: "document list"

text \<open>Equality of stored values: numbers compare by value across the integer and double
  types (\<open>canon\<close> writes an integral double as the integer), everything else by
  structure.\<close>

fun canon :: "pyval \<Rightarrow> pyval" where
  "canon (PFloat r) = (if of_int \<lfloor>r\<rfloor> = r then PInt \<lfloor>r\<rfloor> else PFloat r)"
| "canon (PList xs) = PList (map canon xs)"
| "canon (PDict d) = PDict (map (\<lambda>(k, v). (k, canon v)) d)"
| "canon v = v"

definition bson_eq :: "pyval \<Rightarrow> pyval \<Rightarrow> bool" where
  "bson_eq x y = (canon x = canon y)"

text \<open>The filter \<^verbatim>\<open>{k: q}\<close>: the field equals \<open>q\<close>, or is an array with an element equal
  to \<open>q\<close>; a document without the field matches only \<^verbatim>\<open>None\<close>. A filter with several
  keys is their conjunction. (A dictionary \<open>q\<close> whose keys are query operators, such as
  \<^verbatim>\<open>$ne\<close>, is not interpreted as operators: the handlers are stated on the
  queries the program builds from strings and ObjectIds.)\<close>

fun eq_match :: "pyval option \<Rightarrow> pyval \<Rightarrow> bool" where
  "eq_match None q = (q = PNone)"
| "eq_match (Some (PList xs)) q = (bson_eq (PList xs) q \<or> list_ex (\<lambda>x. bson_eq x q) xs)"
| "eq_match (Some x) q = bson_eq x q"

definition matches :: "(string \<times> pyval) list \<Rightarrow> document \<Rightarrow> bool" where
  "matches flt d = list_all (\<lambda>(k, q). eq_match (map_of d k) q) flt"

definition find_all :: "(string \<times> pyval) list \<Rightarrow> document list \<Rightarrow> document list" where
  "find_all flt coll = filter (matches flt) coll"

definition find_one :: "(string \<times> pyval) list \<Rightarrow> document list \<Rightarrow> document option" where
  "find_one flt coll = List.find (matches flt) coll"

text \<open>\<^verbatim>\<open>distinct(k)\<close>: the values of the field over the collection, the elements of an
  array counted one by one, each value once.\<close>

fun field_values :: "string \<Rightarrow> document \<Rightarrow> pyval list" where
  "field_values k d =
     (case map_of d k of None \<Rightarrow> [] | Some (PList xs) \<Rightarrow> xs | Some v \<Rightarrow> [v])"

fun dedup :: "pyval list \<Rightarrow> pyval list" where
  "dedup [] = []"
| "dedup (x # xs) = x # dedup (filter (\<lambda>y. \<not> bson_eq x y) xs)"

definition distinct_values :: "string \<Rightarrow> document list \<Rightarrow> pyval list" where
  "distinct_values k coll = dedup (concat (map (field_values k) coll))"

text \<open>\<^verbatim>\<open>sort(k, -1)\<close>: descending in the store's order of values, which ranks the types
  (null and missing lowest, then numbers, strings, objects, arrays, ObjectIds, booleans,
  dates) and orders numbers, strings, ObjectIds, booleans and dates by value. (Two
  objects, or two arrays, are ranked equal here.) The store leaves the order of documents
  with equal keys open; the model keeps one.\<close>

fun bson_key :: "pyval option \<Rightarrow> nat \<times> rat \<times> string" where
  "bson_key None = (1, 0, [])"
| "bson_key (Some PNone) = (1, 0, [])"
| "bson_key (Some (PInt i)) = (2, of_int i, [])"
| "bson_key (Some (PFloat r)) = (2, r, [])"
| "bson_key (Some (PStr s)) = (3, 0, s)"
| "bson_key (Some (PDict d)) = (4, 0, [])"
| "bson_key (Some (PList xs)) = (5, 0, [])"
| "bson_key (Some (PObjectId n)) = (7, of_nat n, [])"
| "bson_key (Some (PBool b)) = (8, if b then 1 else 0, [])"
| "bson_key (Some (PDate t)) = (9, of_int t, [])"

definition sort_desc :: "string \<Rightarrow> document list \<Rightarrow> document list" where
  "sort_desc k coll = rev (sort_key (\<lambda>d. bson_key (map_of d k)) coll)"




text \<open>\<^verbatim>\<open>delete_one(flt)\<close>: removes the first document that matches; the second component
  is \<^verbatim>\<open>deleted_count\<close>.\<close>

fun delete_one :: "(string \<times> pyval) list \<Rightarrow> document list \<Rightarrow> document list \<times> nat" where
  "delete_one flt [] = ([], 0)"
| "delete_one flt (d # ds) =
     (if matches flt d then (ds, 1)
      else (case delete_one flt ds of (ds', n) \<Rightarrow> (d # ds', n)))"

section \<open>Responses and serialisation\<close>

text \<open>\<open>Reply code body\<close> is \<^verbatim>\<open>jsonify(body), code\<close>. \<open>InternalError e\<close> is the reply of a
  handler's \<^verbatim>\<open>except Exception as e\<close> clause, status 500 with the text of \<open>e\<close>.\<close>

datatype response = Reply nat pyval | InternalError py_exc

fun status_code :: "response \<Rightarrow> nat" where
  "status_code (Reply code body) = code"
| "status_code (InternalError e) = 500"

definition guarded :: "py_exc + response \<Rightarrow> response" where
  "guarded r = (case r of Inl e \<Rightarrow> InternalError e | Inr reply \<Rightarrow> reply)"

definition error_body :: "string \<Rightarrow> pyval" where
  "error_body msg = PDict [(''status'', PStr ''error''), (''message'', PStr msg)]"

definition success_message :: "string \<Rightarrow> pyval" where
  "success_message msg = PDict [(''status'', PStr ''success''), (''message'', PStr msg)]"

text \<open>
  \<^verbatim>\<open>
  def parse_json(data):
      return json.loads(json_util.dumps(data))
  \<close>
  The round trip through Extended JSON keeps JSON's own values and writes an ObjectId as
  \<^verbatim>\<open>{"$oid": <24 hex digits>}\<close> and a datetime as \<^verbatim>\<open>{"$date": ...}\<close>. How the instant is
  written under \<^verbatim>\<open>$date\<close> depends on the driver's JSON mode, so it is the parameter
  \<open>jd\<close>.
\<close>

fun hex_digits :: "nat \<Rightarrow> nat \<Rightarrow> string" where
  "hex_digits 0 n = []"
| "hex_digits (Suc k) n = hex_digits k (n div 16) @ [''0123456789abcdef'' ! (n mod 16)]"

definition hex24 :: "nat \<Rightarrow> string" where
  "hex24 n = hex_digits 24 n"

fun parse_json :: "(int \<Rightarrow> pyval) \<Rightarrow> pyval \<Rightarrow> pyval" where
  "parse_json jd (PList xs) = PList (map (parse_json jd) xs)"
| "parse_json jd (PDict d) = PDict (map (\<lambda>(k, v). (k, parse_json jd v)) d)"
| "parse_json jd (PDate t) = PDict [(''$date'', jd t)]"
| "parse_json jd (PObjectId n) = PDict [(''$oid'', PStr (hex24 n))]"
| "parse_json jd v = v"

section \<open>Item lookup\<close>

text \<open>
  \<^verbatim>\<open>
  def get_item():
      try:
          data = request.get_json()
          if not data or 'item_name' not in data:
              return jsonify({"status": "error", "message": "Missing item_name parameter"}), 400
          item_name = data['item_name']
          item = db.inventory.find_one({"item_name": item_name})
          if not item:
              return jsonify({"status": "error", "message": "Item not found"}), 404
          loc_parts = item['current_location'].split('-')
          bin_data = db.warehouse_layout.find_one({
              "zone_id": loc_parts[0], "rack_id": loc_parts[1], "bin_id": loc_parts[2]})
          if bin_data and 'capacity' in bin_data:
              bin_data['capacity'] = parse_capacity(bin_data['capacity'])
          movement_history = list(db.movement_logs.find({"item_id": item["item_id"]})
                                    .sort("timestamp", -1).limit(5))
          item_data = parse_json(item)
          item_data['bin_details'] = parse_json(bin_data) if bin_data else None
          item_data['movement_history'] = parse_json(movement_history)
          return jsonify({"status": "success", "data": item_data})
      except Exception as e:
          return jsonify({"status": "error", "message": str(e)}), 500
  \<close>
  The argument \<open>data\<close> is the JSON body as \<^verbatim>\<open>request.get_json()\<close> returns it.
\<close>

text \<open>\<^verbatim>\<open>s.split('-')\<close>: the pieces between the separators, one more than there are
  separators; only a string has the method. \<^verbatim>\<open>xs[i]\<close> raises \<^verbatim>\<open>IndexError\<close> past the
  end.\<close>

fun split_on :: "char \<Rightarrow> string \<Rightarrow> string list" where
  "split_on sep [] = [[]]"
| "split_on sep (c # cs) =
     (if c = sep then [] # split_on sep cs
      else (case split_on sep cs of
              [] \<Rightarrow> [[c]]
            | p # ps \<Rightarrow> (c # p) # ps))"

fun py_split :: "pyval \<Rightarrow> py_exc + string list" where
  "py_split (PStr s) = Inr (split_on CHR ''-'' s)"
| "py_split _ = Inl AttributeError"

definition py_index :: "'a list \<Rightarrow> nat \<Rightarrow> py_exc + 'a" where
  "py_index xs i = (if i < length xs then Inr (xs ! i) else Inl IndexError)"

text \<open>\<^verbatim>\<open>obj[k] = v\<close>: only a dictionary takes a string key.\<close>

fun py_setitem :: "pyval \<Rightarrow> string \<Rightarrow> pyval \<Rightarrow> py_exc + pyval" where
  "py_setitem (PDict d) k v = Inr (PDict (dict_set d k v))"
| "py_setitem _ k v = Inl TypeError"

text \<open>The bin of an item: the split of its location and the lookup by the first three
  parts.\<close>

definition locate_bin :: "document \<Rightarrow> document list \<Rightarrow> py_exc + document option" where
  "locate_bin item layout =
     and_then (py_getitem (PDict item) ''current_location'') (\<lambda>loc.
     and_then (py_split loc) (\<lambda>loc_parts.
     and_then (py_index loc_parts 0) (\<lambda>zone.
     and_then (py_index loc_parts 1) (\<lambda>rack.
     and_then (py_index loc_parts 2) (\<lambda>bn.
     Inr (find_one [(''zone_id'', PStr zone), (''rack_id'', PStr rack), (''bin_id'', PStr bn)]
            layout))))))"

text \<open>The capacity of the bin found, parsed in place.\<close>

definition normalize_bin ::
  "(string \<Rightarrow> py_exc + pyval) \<Rightarrow> document option \<Rightarrow> py_exc + document option" where
  "normalize_bin le bin_data =
     (case bin_data of
        None \<Rightarrow> Inr None
      | Some b \<Rightarrow>
          (if py_truthy (PDict b) \<and> map_of b ''capacity'' \<noteq> None
           then and_then (py_getitem (PDict b) ''capacity'') (\<lambda>raw.
                and_then (parse_capacity le raw) (\<lambda>capacity.
                Inr (Some (dict_set b ''capacity'' capacity))))
           else Inr (Some b)))"

definition movement_history_of :: "pyval \<Rightarrow> document list \<Rightarrow> document list" where
  "movement_history_of item_id logs =
     take 5 (sort_desc ''timestamp'' (find_all [(''item_id'', item_id)] logs))"

definition bin_details_of :: "(int \<Rightarrow> pyval) \<Rightarrow> document option \<Rightarrow> pyval" where
  "bin_details_of jd bin_data =
     (case bin_data of
        None \<Rightarrow> PNone
      | Some b \<Rightarrow> if py_truthy (PDict b) then parse_json jd (PDict b) else PNone)"

definition success_data :: "pyval \<Rightarrow> pyval" where
  "success_data item_data = PDict [(''status'', PStr ''success''), (''data'', item_data)]"

definition get_item ::
  "(string \<Rightarrow> py_exc + pyval) \<Rightarrow> (int \<Rightarrow> pyval) \<Rightarrow> pyval \<Rightarrow> store \<Rightarrow> response" where
  "get_item le jd data db = guarded (
     if \<not> py_truthy data then Inr (Reply 400 (error_body ''Missing item_name parameter''))
     else
     and_then (py_contains ''item_name'' data) (\<lambda>present.
     if \<not> present then Inr (Reply 400 (error_body ''Missing item_name parameter''))
     else
     and_then (py_getitem data ''item_name'') (\<lambda>item_name.
     case find_one [(''item_name'', item_name)] (inventory db) of
       None \<Rightarrow> Inr (Reply 404 (error_body ''Item not found''))
     | Some item \<Rightarrow>
         if \<not> py_truthy (PDict item) then Inr (Reply 404 (error_body ''Item not found''))
         else
         and_then (locate_bin item (warehouse_layout db)) (\<lambda>found.
         and_then (normalize_bin le found) (\<lambda>bin_data.
         and_then (py_getitem (PDict item) ''item_id'') (\<lambda>item_id.
         and_then (py_setitem (parse_json jd (PDict item)) ''bin_details''
                     (bin_details_of jd bin_data)) (\<lambda>item_data.
         and_then (py_setitem item_data ''movement_history''
                     (parse_json jd (PList (map PDict
                        (movement_history_of item_id (movement_logs db)))))) (\<lambda>item_data'.
         Inr (Reply 200 (success_data item_data'))))))))))"

section \<open>Warehouse statistics and the dashboard\<close>




text \<open>
  \<^verbatim>\<open>
  expiring_soon = db.inventory.count_documents({
      "expiry_date": {"$lt": datetime.now() + timedelta(days=7),
                      "$gte": datetime.now()}})
  \<close>
  The clock is read twice, first for the upper bound (\<open>now_lt\<close>), then for the lower
  (\<open>now_gte\<close>). A comparison with a date matches only a date. (An array of dates, which
  the store compares element by element, is not interpreted.)
\<close>

definition week :: int where
  "week = 7 * 24 * 60 * 60 * 1000"




text \<open>
  The dashboard passes to its template the ten latest items, the number of items, the
  zones and the utilization over all bins. Rendering the template is outside the model:
  the reply carries the values handed to it.
\<close>

definition dashboard :: "(string \<Rightarrow> py_exc + pyval) \<Rightarrow> (int \<Rightarrow> pyval) \<Rightarrow> store \<Rightarrow> response" where
  "dashboard le jd db = guarded (
     and_then (utilization le (warehouse_layout db)) (\<lambda>u.
     Inr (Reply 200 (PDict
       [(''items'', parse_json jd (PList (map PDict
                      (take 10 (sort_desc ''entry_date'' (inventory db)))))),
        (''total_items'', PInt (int (length (inventory db)))),
        (''zones'', PList (distinct_values ''zone_id'' (warehouse_layout db))),
        (''utilization'', u)]))))"

section \<open>Adding and deleting items\<close>

text \<open>A request: whether its content type is JSON, its JSON body as \<^verbatim>\<open>get_json()\<close>
  returns it, and its form fields.\<close>

record request =
  is_json :: bool
  json :: pyval
  form :: "(string \<times> string) list"



text \<open>\<^verbatim>\<open>float(x)\<close>: a number as a float; a string through the library's parser of float
  texts, the parameter \<open>fos\<close> (\<open>None\<close> where it raises \<^verbatim>\<open>ValueError\<close>); a
  \<^verbatim>\<open>TypeError\<close> on anything else. \<^verbatim>\<open>datetime.fromisoformat(x)\<close>: the parameter \<open>parse_iso\<close>
  on a string, a \<^verbatim>\<open>TypeError\<close> on anything else.\<close>

fun py_float :: "(string \<Rightarrow> rat option) \<Rightarrow> pyval \<Rightarrow> py_exc + pyval" where
  "py_float fos (PInt i) = Inr (PFloat (of_int i))"
| "py_float fos (PBool b) = Inr (PFloat (if b then 1 else 0))"
| "py_float fos (PFloat r) = Inr (PFloat r)"
| "py_float fos (PStr s) = (case fos s of None \<Rightarrow> Inl ValueError | Some r \<Rightarrow> Inr (PFloat r))"
| "py_float fos _ = Inl TypeError"

fun fromisoformat :: "(string \<Rightarrow> int option) \<Rightarrow> pyval \<Rightarrow> py_exc + pyval" where
  "fromisoformat parse_iso (PStr s) = (case parse_iso s of None \<Rightarrow> Inl ValueError | Some t \<Rightarrow> Inr (PDate t))"
| "fromisoformat parse_iso _ = Inl TypeError"

text \<open>
  \<^verbatim>\<open>
  new_item = {
      "item_id": form_data['item_id'],
      "item_name": form_data['item_name'],
      "category": form_data['category'],
      "dimensions": {
          "length": float(form_data['dimensions']['length']),
          "width": float(form_data['dimensions']['width']),
          "height": float(form_data['dimensions']['height'])
      },
      "weight": float(form_data['weight']),
      "fragility": bool(form_data.get('fragility', False)),
      "expiry_date": datetime.fromisoformat(form_data['expiry_date'])
                     if form_data.get('expiry_date') else None,
      "current_location": form_data['current_location'],
      "entry_date": datetime.now()
  }
  \<close>
\<close>

definition dimension ::
  "(string \<Rightarrow> rat option) \<Rightarrow> pyval \<Rightarrow> string \<Rightarrow> py_exc + pyval" where
  "dimension fos form_data k =
     and_then (py_getitem form_data ''dimensions'') (\<lambda>dims.
     and_then (py_getitem dims k) (\<lambda>v. py_float fos v))"

definition new_item ::
  "(string \<Rightarrow> rat option) \<Rightarrow> (string \<Rightarrow> int option) \<Rightarrow> int \<Rightarrow> pyval \<Rightarrow> py_exc + document" where
  "new_item fos parse_iso now form_data =
     and_then (py_getitem form_data ''item_id'') (\<lambda>item_id.
     and_then (py_getitem form_data ''item_name'') (\<lambda>item_name.
     and_then (py_getitem form_data ''category'') (\<lambda>category.
     and_then (dimension fos form_data ''length'') (\<lambda>l.
     and_then (dimension fos form_data ''width'') (\<lambda>w.
     and_then (dimension fos form_data ''height'') (\<lambda>h.
     and_then (py_getitem form_data ''weight'') (\<lambda>weight_raw.
     and_then (py_float fos weight_raw) (\<lambda>weight.
     and_then (py_get form_data ''fragility'' (PBool False)) (\<lambda>fragility.
     and_then (py_get form_data ''expiry_date'' PNone) (\<lambda>expiry_given.
     and_then (if py_truthy expiry_given
               then and_then (py_getitem form_data ''expiry_date'') (fromisoformat parse_iso)
               else Inr PNone) (\<lambda>expiry_date.
     and_then (py_getitem form_data ''current_location'') (\<lambda>current_location.
     Inr [(''item_id'', item_id),
          (''item_name'', item_name),
          (''category'', category),
          (''dimensions'', PDict [(''length'', l), (''width'', w), (''height'', h)]),
          (''weight'', weight),
          (''fragility'', PBool (py_truthy fragility)),
          (''expiry_date'', expiry_date),
          (''current_location'', current_location),
          (''entry_date'', PDate now)]))))))))))))"



text \<open>
  \<^verbatim>\<open>
  def delete_item():
      try:
          if request.is_json:
              data = request.get_json()
              item_id = data.get('item_id')
          else:
              item_id = request.form.get('item_id')
          if not item_id:
              return jsonify({"status": "error", "message": "Missing item_id parameter"}), 400
          result = db.inventory.delete_one({"_id": ObjectId(item_id)})
          if result.deleted_count == 0:
              return jsonify({"status": "error", "message": "Item not found"}), 404
          return jsonify({"status": "success", "message": "Item deleted"})
      except Exception as e:
          return jsonify({"status": "error", "message": str(e)}), 500
  \<close>
  \<^verbatim>\<open>ObjectId(x)\<close> takes a string of 24 hexadecimal digits; another string is an
  \<^verbatim>\<open>InvalidId\<close>, a value of another type a \<^verbatim>\<open>TypeError\<close>. (A 24-character string with
  white space among the digits, which \<^verbatim>\<open>bytes.fromhex\<close> lets through, is counted with the
  invalid ones.)
\<close>

definition is_hex :: "char \<Rightarrow> bool" where
  "is_hex c = (c \<in> set ''0123456789abcdefABCDEF'')"

definition hex_digit_value :: "char \<Rightarrow> nat" where
  "hex_digit_value c =
     (if c \<in> set ''0123456789'' then of_char c - 48
      else if c \<in> set ''abcdef'' then of_char c - 87
      else of_char c - 55)"

definition hex_value :: "string \<Rightarrow> nat" where
  "hex_value s = foldl (\<lambda>n c. 16 * n + hex_digit_value c) 0 s"

fun object_id :: "pyval \<Rightarrow> py_exc + pyval" where
  "object_id (PStr s) =
     (if length s = 24 \<and> list_all is_hex s then Inr (PObjectId (hex_value s))
      else Inl InvalidId)"
| "object_id (PObjectId n) = Inr (PObjectId n)"
| "object_id _ = Inl TypeError"

definition requested_id :: "request \<Rightarrow> py_exc + pyval" where
  "requested_id req =
     (if is_json req then py_get (json req) ''item_id'' PNone
      else Inr (case map_of (form req) ''item_id'' of None \<Rightarrow> PNone | Some s \<Rightarrow> PStr s))"

definition delete_item :: "request \<Rightarrow> store \<Rightarrow> response \<times> store" where
  "delete_item req db =
     (case requested_id req of
        Inl e \<Rightarrow> (InternalError e, db)
      | Inr item_id \<Rightarrow>
          if \<not> py_truthy item_id
          then (Reply 400 (error_body ''Missing item_id parameter''), db)
          else
            (case object_id item_id of
               Inl e \<Rightarrow> (InternalError e, db)
             | Inr oid \<Rightarrow>
                 (case delete_one [(''_id'', oid)] (inventory db) of
                    (items, deleted_count) \<Rightarrow>
                      if deleted_count = 0
                      then (Reply 404 (error_body ''Item not found''), db\<lparr>inventory := items\<rparr>)
                      else (Reply 200 (success_message ''Item deleted''),
                            db\<lparr>inventory := items\<rparr>))))"

section \<open>The aggregator in the spec's words\<close>

text \<open>
  The spec states the totals over the bins' volumes and utilizations. \<open>bin_volume\<close> is
  \<^verbatim>\<open>length*width*height\<close> of the parsed capacity of a bin, where the capacity parses to a
  record with three numbers; \<open>bin_utilization\<close> is its \<^verbatim>\<open>current_utilization\<close>, 0 when
  the field is missing.
\<close>

definition numeric_field :: "document \<Rightarrow> string \<Rightarrow> rat option" where
  "numeric_field d k = (case map_of d k of None \<Rightarrow> None | Some v \<Rightarrow> as_num v)"





section \<open>A sample store\<close>

text \<open>Three items (one at a location of two parts, one at a location of four), one bin
  with its capacity stored as text, seven movement logs of the first item and one of the
  second.\<close>

definition widget :: document where
  "widget =
     [(''_id'', PObjectId 1), (''item_id'', PStr ''W-1''), (''item_name'', PStr ''widget''),
      (''category'', PStr ''tools''), (''current_location'', PStr ''A-1-2''),
      (''expiry_date'', PDate 1000)]"

definition gear :: document where
  "gear =
     [(''_id'', PObjectId 2), (''item_id'', PStr ''G-7''), (''item_name'', PStr ''gear''),
      (''category'', PStr ''parts''), (''current_location'', PStr ''A1''),
      (''expiry_date'', PDate (1000 + week))]"

definition crate :: document where
  "crate =
     [(''_id'', PObjectId 3), (''item_id'', PStr ''C-3''), (''item_name'', PStr ''crate''),
      (''category'', PStr ''tools''), (''current_location'', PStr ''A-1-2-3''),
      (''expiry_date'', PNone)]"

definition bin_A12 :: document where
  "bin_A12 =
     [(''_id'', PObjectId 10), (''zone_id'', PStr ''A''), (''rack_id'', PStr ''1''),
      (''bin_id'', PStr ''2''),
      (''capacity'', PStr ''{'length': 2, 'width': 2, 'height': 5}''),
      (''current_utilization'', PFloat (1 / 4))]"

definition movement :: "nat \<Rightarrow> string \<Rightarrow> int \<Rightarrow> document" where
  "movement n item_id t =
     [(''_id'', PObjectId n), (''item_id'', PStr item_id), (''timestamp'', PDate t),
      (''movement_type'', PStr ''in''), (''location'', PStr ''A-1-2''),
      (''order_id'', PStr ''SYSTEM_ADD'')]"

definition sample_store :: store where
  "sample_store =
     \<lparr>inventory = [widget, gear, crate],
      warehouse_layout = [bin_A12],
      movement_logs =
        [movement 21 ''W-1'' 300, movement 22 ''W-1'' 100, movement 23 ''G-7'' 900,
         movement 24 ''W-1'' 700, movement 25 ''W-1'' 200, movement 26 ''W-1'' 600,
         movement 27 ''W-1'' 500, movement 28 ''W-1'' 400]\<rparr>"

text \<open>The Extended JSON of a date in the driver's legacy mode (milliseconds since the
  epoch), for running the handlers on the sample.\<close>

definition legacy_date :: "int \<Rightarrow> pyval" where
  "legacy_date t = PInt t"

definition json_request :: "document \<Rightarrow> request" where
  "json_request body = \<lparr>is_json = True, json = PDict body, form = []\<rparr>"



section \<open>Models of \<^verbatim>\<open>float\<close> and \<^verbatim>\<open>datetime.fromisoformat\<close> on sample texts\<close>













section \<open>Properties of the capacity parser\<close>

lemma and_then_Inl [simp]: "and_then (Inl e) f = Inl e"
  by (simp add: and_then_def)

lemma and_then_Inr [simp]: "and_then (Inr x) f = f x"
  by (simp add: and_then_def)

lemma parse_capacity_not_str: "\<forall>s. v \<noteq> PStr s \<Longrightarrow> parse_capacity le v = Inr v"
  by (cases v) auto

text \<open>The evaluator of the fragment on the sample texts used below.\<close>

lemma literal_eval_dict_sample:
  "literal_eval ''{'length': 2, 'width': 3, 'height': 4}'' =
     Inr (PDict [(''length'', PInt 2), (''width'', PInt 3), (''height'', PInt 4)])"
  by code_simp

lemma literal_eval_truncated_sample: "literal_eval ''{'length': 2, '' = Inl SyntaxError"
  by code_simp

lemma literal_eval_name_sample: "literal_eval ''large'' = Inl ValueError"
  by code_simp

lemma literal_eval_unhashable_sample: "literal_eval ''{[1]: 2}'' = Inl TypeError"
  by code_simp

lemma literal_eval_int_sample: "literal_eval ''42'' = Inr (PInt 42)"
  by code_simp

lemma literal_eval_list_sample: "literal_eval ''[1, 2]'' = Inr (PList [PInt 1, PInt 2])"
  by code_simp

text \<open>
  Claim C1, as the code has it. A capacity that is already a dictionary is returned
  unchanged. A string that the literal evaluator decodes to a dictionary gives that
  dictionary. A string on which the evaluator raises \<^verbatim>\<open>ValueError\<close> or \<^verbatim>\<open>SyntaxError\<close>
  gives exactly \<^verbatim>\<open>{'length': 0, 'width': 0, 'height': 0}\<close>. Any other exception of the
  evaluator (\<^verbatim>\<open>TypeError\<close>, \<^verbatim>\<open>MemoryError\<close>, \<^verbatim>\<open>RecursionError\<close>) is not absorbed: it
  leaves \<^verbatim>\<open>parse_capacity\<close>.
\<close>

theorem parse_capacity_cases:
  "parse_capacity le (PDict d) = Inr (PDict d) \<and>
   (le s = Inr (PDict d') \<longrightarrow> parse_capacity le (PStr s) = Inr (PDict d')) \<and>
   (le s = Inl ValueError \<or> le s = Inl SyntaxError \<longrightarrow>
      parse_capacity le (PStr s) = Inr zero_capacity) \<and>
   (le s = Inl e \<and> e \<noteq> ValueError \<and> e \<noteq> SyntaxError \<longrightarrow> parse_capacity le (PStr s) = Inl e)"
  by (cases e) auto

theorem parse_capacity_cases_witness:
  "parse_capacity literal_eval (PDict [(''length'', PInt 2)]) = Inr (PDict [(''length'', PInt 2)]) \<and>
   literal_eval ''{'length': 2, 'width': 3, 'height': 4}'' =
     Inr (PDict [(''length'', PInt 2), (''width'', PInt 3), (''height'', PInt 4)]) \<and>
   parse_capacity literal_eval (PStr ''{'length': 2, 'width': 3, 'height': 4}'') =
     Inr (PDict [(''length'', PInt 2), (''width'', PInt 3), (''height'', PInt 4)]) \<and>
   literal_eval ''{'length': 2, '' = Inl SyntaxError \<and>
   parse_capacity literal_eval (PStr ''{'length': 2, '') = Inr zero_capacity \<and>
   literal_eval ''large'' = Inl ValueError \<and>
   parse_capacity literal_eval (PStr ''large'') = Inr zero_capacity \<and>
   literal_eval ''{[1]: 2}'' = Inl TypeError \<and>
   parse_capacity literal_eval (PStr ''{[1]: 2}'') = Inl TypeError"
  using parse_capacity_cases [of literal_eval "[(''length'', PInt 2)]"
      "''{'length': 2, 'width': 3, 'height': 4}''"
      "[(''length'', PInt 2), (''width'', PInt 3), (''height'', PInt 4)]" TypeError]
    parse_capacity_cases [of literal_eval "[]" "''{'length': 2, ''" "[]" TypeError]
    parse_capacity_cases [of literal_eval "[]" "''large''" "[]" TypeError]
    parse_capacity_cases [of literal_eval "[]" "''{[1]: 2}''" "[]" TypeError]
    literal_eval_dict_sample literal_eval_truncated_sample literal_eval_name_sample
    literal_eval_unhashable_sample
  by simp

text \<open>
  The claim as the spec states it (every string whose parsing fails gives the zero
  capacity, and nothing is raised outward) fails on the text \<^verbatim>\<open>{[1]: 2}\<close>: the evaluator
  raises \<^verbatim>\<open>TypeError\<close> (a list is not hashable), which the \<^verbatim>\<open>except\<close> clause does not
  name.
\<close>

theorem parse_capacity_absorbs_all_counterexample:
  "literal_eval ''{[1]: 2}'' = Inl TypeError \<and>
   parse_capacity literal_eval (PStr ''{[1]: 2}'') \<noteq> Inr zero_capacity \<and>
   parse_capacity literal_eval (PStr ''{[1]: 2}'') = Inl TypeError"
  using literal_eval_unhashable_sample by simp

text \<open>
  Claim C10. \<^verbatim>\<open>parse_capacity\<close> is the identity on every input that is not a string
  (\<^verbatim>\<open>None\<close>, numbers and lists as well as dictionaries), and a string that the evaluator
  decodes to any value, dictionary or not, gives that value: for \<^verbatim>\<open>"42"\<close> the integer 42
  and for \<^verbatim>\<open>"[1, 2]"\<close> the list, not the zero capacity.
\<close>

theorem parse_capacity_passes_through:
  "((\<forall>s. v \<noteq> PStr s) \<longrightarrow> parse_capacity le v = Inr v) \<and>
   (le s = Inr w \<longrightarrow> parse_capacity le (PStr s) = Inr w)"
  by (simp add: parse_capacity_not_str)

theorem parse_capacity_passes_through_witness:
  "parse_capacity literal_eval PNone = Inr PNone \<and>
   parse_capacity literal_eval (PInt 7) = Inr (PInt 7) \<and>
   parse_capacity literal_eval (PList [PInt 1]) = Inr (PList [PInt 1]) \<and>
   literal_eval ''42'' = Inr (PInt 42) \<and>
   parse_capacity literal_eval (PStr ''42'') = Inr (PInt 42) \<and>
   parse_capacity literal_eval (PStr ''42'') \<noteq> Inr zero_capacity \<and>
   literal_eval ''[1, 2]'' = Inr (PList [PInt 1, PInt 2]) \<and>
   parse_capacity literal_eval (PStr ''[1, 2]'') = Inr (PList [PInt 1, PInt 2])"
  using parse_capacity_passes_through [of PNone literal_eval "''42''" "PInt 42"]
    parse_capacity_passes_through [of "PInt 7" literal_eval "''[1, 2]''" "PList [PInt 1, PInt 2]"]
    parse_capacity_passes_through [of "PList [PInt 1]" literal_eval "''42''" "PInt 42"]
    literal_eval_int_sample literal_eval_list_sample
  by (simp add: zero_capacity_def)

section \<open>Properties of the utilization aggregator\<close>


lemma as_num_None_as_int: "as_num a = None \<Longrightarrow> as_int a = None"
  by (cases a) auto





















section \<open>Properties of the statistics\<close>




section \<open>Properties of deleting an item\<close>



lemma object_id_hex:
  "length s = 24 \<Longrightarrow> list_all is_hex s \<Longrightarrow> object_id (PStr s) = Inr (PObjectId (hex_value s))"
  by simp



text \<open>
  Claim C9. Whatever the request and its outcome, \<^verbatim>\<open>delete_item\<close> leaves the movement
  logs (and the warehouse layout) as they were: a deletion is not logged.
\<close>

theorem delete_item_keeps_logs:
  "movement_logs (snd (delete_item req db)) = movement_logs db \<and>
   warehouse_layout (snd (delete_item req db)) = warehouse_layout db"
  by (auto simp: delete_item_def split: sum.splits prod.splits)

theorem delete_item_keeps_logs_witness:
  "fst (delete_item (json_request [(''item_id'', PStr ''000000000000000000000002'')])
          sample_store) = Reply 200 (success_message ''Item deleted'') \<and>
   movement_logs (snd (delete_item
       (json_request [(''item_id'', PStr ''000000000000000000000002'')]) sample_store)) =
     movement_logs sample_store \<and>
   length (movement_logs sample_store) = 8"
proof -
  have "fst (delete_item (json_request [(''item_id'', PStr ''000000000000000000000002'')])
          sample_store) = Reply 200 (success_message ''Item deleted'')"
    by code_simp
  moreover have "length (movement_logs sample_store) = 8"
    by code_simp
  ultimately show ?thesis
    using delete_item_keeps_logs
      [of "json_request [(''item_id'', PStr ''000000000000000000000002'')]" sample_store]
    by simp
qed

section \<open>Properties of the item lookup\<close>


lemma parse_json_document:
  "parse_json jd (PDict d) = PDict (map (\<lambda>(k, v). (k, parse_json jd v)) d)"
  by simp


lemma split_on_nonempty: "split_on sep s \<noteq> []"
  by (induction s) (auto split: list.splits)

lemma length_split_on: "length (split_on sep s) = Suc (length (filter (\<lambda>c. c = sep) s))"
proof (induction s)
  case Nil
  then show ?case by simp
next
  case (Cons c s)
  then show ?case using split_on_nonempty [of sep s] by (auto split: list.splits)
qed

lemma locate_bin_short:
  assumes "map_of item ''current_location'' = Some (PStr loc)"
    and "length (split_on CHR ''-'' loc) < 3"
  shows "locate_bin item layout = Inl IndexError"
  using assms split_on_nonempty [of "CHR ''-''" loc]
  by (auto simp: locate_bin_def py_index_def)

lemma locate_bin_long:
  assumes "map_of item ''current_location'' = Some (PStr loc)"
    and "3 \<le> length (split_on CHR ''-'' loc)"
  shows "locate_bin item layout =
           Inr (find_one [(''zone_id'', PStr (split_on CHR ''-'' loc ! 0)),
                          (''rack_id'', PStr (split_on CHR ''-'' loc ! 1)),
                          (''bin_id'', PStr (split_on CHR ''-'' loc ! 2))] layout)"
  using assms by (auto simp: locate_bin_def py_index_def)

lemma eq_match_not_none: "q \<noteq> PNone \<Longrightarrow> eq_match x q \<Longrightarrow> x \<noteq> None"
  by (cases x) auto

lemma find_one_matches: "find_one flt coll = Some d \<Longrightarrow> d \<in> set coll \<and> matches flt d"
  by (auto simp: find_one_def find_Some_iff)

lemma found_item_truthy:
  assumes "find_one [(''item_name'', PStr name)] coll = Some item"
  shows "py_truthy (PDict item)"
proof -
  have "eq_match (map_of item ''item_name'') (PStr name)"
    using find_one_matches [OF assms] by (simp add: matches_def)
  then have "map_of item ''item_name'' \<noteq> None"
    by (rule eq_match_not_none [rotated]) simp
  then show ?thesis by (cases item) auto
qed

lemma get_item_named:
  assumes "map_of req ''item_name'' = Some (PStr name)"
  shows "get_item le jd (PDict req) db =
    (case find_one [(''item_name'', PStr name)] (inventory db) of
       None \<Rightarrow> Reply 404 (error_body ''Item not found'')
     | Some item \<Rightarrow> guarded (
         and_then (locate_bin item (warehouse_layout db)) (\<lambda>found.
         and_then (normalize_bin le found) (\<lambda>bin_data.
         and_then (py_getitem (PDict item) ''item_id'') (\<lambda>item_id.
         and_then (py_setitem (parse_json jd (PDict item)) ''bin_details''
                     (bin_details_of jd bin_data)) (\<lambda>item_data.
         and_then (py_setitem item_data ''movement_history''
                     (parse_json jd (PList (map PDict
                        (movement_history_of item_id (movement_logs db)))))) (\<lambda>item_data'.
         Inr (Reply 200 (success_data item_data')))))))))"
proof -
  have "req \<noteq> []" using assms by auto
  then show ?thesis
    using assms found_item_truthy [of name "inventory db"]
    by (auto simp: get_item_def guarded_def split: option.splits)
qed

text \<open>
  Claim C4, as the code has it. For a found item whose \<^verbatim>\<open>current_location\<close> is a string
  that splits on \<^verbatim>\<open>-\<close> into fewer than three parts, the lookup raises \<^verbatim>\<open>IndexError\<close>,
  which the handler answers with status 500. A location of three or more parts does not
  fail there: its first three parts are the zone, rack and bin keys of the bin lookup,
  and any further part is ignored.
\<close>

theorem get_item_location_parts:
  assumes "map_of req ''item_name'' = Some (PStr name)"
    and "find_one [(''item_name'', PStr name)] (inventory db) = Some item"
    and "map_of item ''current_location'' = Some (PStr loc)"
  shows "(length (split_on CHR ''-'' loc) < 3 \<longrightarrow>
            get_item le jd (PDict req) db = InternalError IndexError \<and>
            status_code (get_item le jd (PDict req) db) = 500) \<and>
         (3 \<le> length (split_on CHR ''-'' loc) \<longrightarrow>
            locate_bin item (warehouse_layout db) =
              Inr (find_one [(''zone_id'', PStr (split_on CHR ''-'' loc ! 0)),
                             (''rack_id'', PStr (split_on CHR ''-'' loc ! 1)),
                             (''bin_id'', PStr (split_on CHR ''-'' loc ! 2))]
                     (warehouse_layout db)))"
proof -
  have "get_item le jd (PDict req) db = InternalError IndexError"
    if "length (split_on CHR ''-'' loc) < 3"
    using get_item_named [OF assms(1), of le jd db] assms(2)
      locate_bin_short [OF assms(3) that, of "warehouse_layout db"]
    by (simp add: guarded_def)
  then show ?thesis
    using locate_bin_long [OF assms(3), of "warehouse_layout db"] by auto
qed






lemma named_request: "map_of [(''item_name'', PStr name)] ''item_name'' = Some (PStr name)"
  by simp

lemma sample_find_gear:
  "find_one [(''item_name'', PStr ''gear'')] (inventory sample_store) = Some gear"
  by code_simp

lemma sample_find_crate:
  "find_one [(''item_name'', PStr ''crate'')] (inventory sample_store) = Some crate"
  by code_simp


theorem get_item_location_parts_witness:
  "find_one [(''item_name'', PStr ''gear'')] (inventory sample_store) = Some gear \<and>
   map_of gear ''current_location'' = Some (PStr ''A1'') \<and>
   length (split_on CHR ''-'' ''A1'') = 1 \<and>
   get_item literal_eval legacy_date (PDict [(''item_name'', PStr ''gear'')]) sample_store =
     InternalError IndexError \<and>
   find_one [(''item_name'', PStr ''crate'')] (inventory sample_store) = Some crate \<and>
   map_of crate ''current_location'' = Some (PStr ''A-1-2-3'') \<and>
   split_on CHR ''-'' ''A-1-2-3'' = [''A'', ''1'', ''2'', ''3''] \<and>
   locate_bin crate (warehouse_layout sample_store) = Inr (Some bin_A12)"
proof -
  have gear_loc: "map_of gear ''current_location'' = Some (PStr ''A1'')"
    and gear_parts: "length (split_on CHR ''-'' ''A1'') = 1"
    and crate_loc: "map_of crate ''current_location'' = Some (PStr ''A-1-2-3'')"
    and crate_parts: "split_on CHR ''-'' ''A-1-2-3'' = [''A'', ''1'', ''2'', ''3'']"
    by code_simp+
  have bin_found: "find_one [(''zone_id'', PStr ''A''), (''rack_id'', PStr ''1''),
      (''bin_id'', PStr ''2'')] (warehouse_layout sample_store) = Some bin_A12"
    by code_simp
  show ?thesis
    using get_item_location_parts [OF named_request sample_find_gear gear_loc,
        of literal_eval legacy_date]
      get_item_location_parts [OF named_request sample_find_crate crate_loc,
        of literal_eval legacy_date]
      sample_find_gear sample_find_crate gear_loc gear_parts crate_loc crate_parts bin_found
    by simp
qed

text \<open>
  The claim as the spec states it (every location that does not split into exactly
  three parts ends in a 500) fails on a location of four parts: the crate at
  \<^verbatim>\<open>A-1-2-3\<close> is served with status 200, from the bin \<^verbatim>\<open>A\<close>, \<^verbatim>\<open>1\<close>, \<^verbatim>\<open>2\<close>.
\<close>

theorem get_item_four_parts_counterexample:
  "find_one [(''item_name'', PStr ''crate'')] (inventory sample_store) = Some crate \<and>
   map_of crate ''current_location'' = Some (PStr ''A-1-2-3'') \<and>
   length (split_on CHR ''-'' ''A-1-2-3'') = 4 \<and>
   status_code (get_item literal_eval legacy_date (PDict [(''item_name'', PStr ''crate'')])
                  sample_store) = 200"
  by code_simp








section \<open>Properties of adding an item\<close>





text \<open>The coercions succeed, for one, on numbers: a request whose dimensions and weight
  are JSON numbers and that gives no expiry date builds its item.\<close>

lemma py_float_number: "as_num v = Some x \<Longrightarrow> py_float fos v = Inr (PFloat x)"
  by (cases v) auto

lemma new_item_numbers:
  assumes "map_of f ''item_id'' = Some item_id" "map_of f ''item_name'' = Some item_name"
    and "map_of f ''category'' = Some category" "map_of f ''dimensions'' = Some (PDict dims)"
    and "numeric_field dims ''length'' = Some l" "numeric_field dims ''width'' = Some w"
    and "numeric_field dims ''height'' = Some h" "numeric_field f ''weight'' = Some weight"
    and "map_of f ''expiry_date'' = None" "map_of f ''current_location'' = Some location"
  shows "new_item fos parse_iso now (PDict f) =
     Inr [(''item_id'', item_id), (''item_name'', item_name), (''category'', category),
          (''dimensions'', PDict [(''length'', PFloat l), (''width'', PFloat w),
                                  (''height'', PFloat h)]),
          (''weight'', PFloat weight),
          (''fragility'', PBool (py_truthy
             (case map_of f ''fragility'' of None \<Rightarrow> PBool False | Some v \<Rightarrow> v))),
          (''expiry_date'', PNone), (''current_location'', location),
          (''entry_date'', PDate now)]"
  using assms
  by (auto simp: new_item_def dimension_def numeric_field_def py_float_number
        split: option.splits)








end
